theory Spec2Isabelle
  imports Complex_Main
begin

section \<open>Odometry of the 2020-2021 bionic-beaver robot\<close>

text \<open>
  A shallow embedding of \<^verbatim>\<open>src/subsystems/control/odometry.cpp\<close>: the class
  \<^verbatim>\<open>c_Odometry\<close>, its constructor, \<^verbatim>\<open>start_odom\<close>, \<^verbatim>\<open>stop_odom\<close>,
  \<^verbatim>\<open>calibrate\<close>, the getters, \<^verbatim>\<open>m_filter_values\<close> and the body of the
  endless loop of \<^verbatim>\<open>m_update_func\<close>.

  Numbers. Every quantity of the source is a C++ \<^verbatim>\<open>double\<close>. The model computes with
  \<^typ>\<open>real\<close>: the same expressions, in the same order, evaluated exactly. Rounding,
  infinities and NaN are outside the model; a statement below that rests on an identity of
  exact arithmetic which rounding can break says so where it is stated.
\<close>

subsection \<open>Configuration and sensor data\<close>

text \<open>
  The starting table \<^verbatim>\<open>c_Robot_Starting_Positions\<close> is declared in a header that is
  not part of the sources; the constructor reads the members \<^verbatim>\<open>m_live_start_red\<close>,
  \<^verbatim>\<open>m_live_start_blue\<close> and \<^verbatim>\<open>m_skills\<close> of it, and of each the members
  \<^verbatim>\<open>x\<close>, \<^verbatim>\<open>y\<close> and \<^verbatim>\<open>head\<close> (here \<open>coord_x\<close>, \<open>coord_y\<close>, \<open>coord_head\<close>,
  so that the letters stay free for variables).
\<close>

datatype c_Robot_Starting_Pos_Side = RED | BLUE | SKILLS

record c_Coords =
  coord_x :: real
  coord_y :: real
  coord_head :: real

record c_Robot_Starting_Positions =
  m_live_start_red :: c_Coords
  m_live_start_blue :: c_Coords
  m_skills :: c_Coords

text \<open>The two wheel identifiers the loop passes to \<^verbatim>\<open>tracking_wheels_get\<close>.\<close>

datatype h_Sensors_Tracking_Wheel_IDs = RIGHT | MIDDLE

text \<open>
  What the sensor object \<^verbatim>\<open>m_sensors_obj\<close> answers during one pass of the loop: the
  three readings of the inertial unit (degrees), the two tracking wheel readings (degrees
  of wheel rotation) and the three geometry accessors (inches).
\<close>

record h_Sensors =
  imu_get_rotation :: real
  imu_get_pitch :: real
  imu_get_roll :: real
  tracking_wheels_get :: "h_Sensors_Tracking_Wheel_IDs \<Rightarrow> real"
  tracking_wheels_get_diameter :: real
  tracking_wheels_get_side_radius :: real
  tracking_wheels_get_middle_radius :: real

subsection \<open>The state of one update task\<close>

text \<open>
  \<^verbatim>\<open>m_update_func\<close> declares its variables before \<^verbatim>\<open>while(true)\<close>, so they live
  from one pass of the loop to the next. They are the state of the task that runs the
  function; \<open>m_update_func_init\<close> holds their initialisers.
\<close>

record update_locals =
  m_current_rotation :: real
  m_filtered_rotation :: real
  m_last_rotation :: real
  m_current_pitch :: real
  m_filtered_pitch :: real
  m_last_pitch :: real
  m_current_roll :: real
  m_filtered_roll :: real
  m_last_roll :: real
  m_len_right :: real
  m_len_middle :: real
  m_delta_right :: real
  m_delta_middle :: real
  m_last_right :: real
  m_last_middle :: real
  m_delta_theta :: real
  m_alpha :: real
  m_radius_right :: real
  m_radius_middle :: real
  m_chord_right :: real
  m_chord_middle :: real
  m_polar_offset :: real

definition m_update_func_init :: update_locals where
  "m_update_func_init =
     \<lparr> m_current_rotation = 0, m_filtered_rotation = 0, m_last_rotation = 0,
       m_current_pitch = 0, m_filtered_pitch = 0, m_last_pitch = 0,
       m_current_roll = 0, m_filtered_roll = 0, m_last_roll = 0,
       m_len_right = 0, m_len_middle = 0, m_delta_right = 0, m_delta_middle = 0,
       m_last_right = 0, m_last_middle = 0, m_delta_theta = 0, m_alpha = 0,
       m_radius_right = 0, m_radius_middle = 0, m_chord_right = 0, m_chord_middle = 0,
       m_polar_offset = 0 \<rparr>"

subsection \<open>The odometry object\<close>

text \<open>
  The members of \<^verbatim>\<open>c_Odometry\<close> that the functions of the source read or write. The
  goal and ball coordinate tables and the chassis handle are stored by the constructor and
  never used; they are left out. \<open>m_update_task\<close> is the task pointer (\<open>None\<close> is
  \<^verbatim>\<open>nullptr\<close>). \<open>pros_tasks\<close> is the scheduler's table of live tasks, each with the
  variables of its \<^verbatim>\<open>m_update_func\<close>, and \<open>pros_next\<close> the next unused task
  address: \<^verbatim>\<open>new pros::Task\<close> takes it.
\<close>

record c_Odometry =
  m_starting_side :: c_Robot_Starting_Pos_Side
  m_starting_x :: real
  m_starting_y :: real
  m_starting_angle :: real
  m_offset_x :: real
  m_offset_y :: real
  m_offset_angle :: real
  m_global_x :: real
  m_global_y :: real
  m_global_angle :: real
  m_update_task :: "nat option"
  pros_tasks :: "nat \<Rightarrow> update_locals option"
  pros_next :: nat

text \<open>
  The constructor. Its initialiser list stores the side; its body assigns the three
  starting members from the table, by the side. The members it does not assign keep what
  the object held before the body ran (the header's in-class initialisers, if any): they
  come from \<open>raw\<close>.
\<close>

definition c_Odometry_ctor ::
  "c_Robot_Starting_Positions \<Rightarrow> c_Robot_Starting_Pos_Side \<Rightarrow> c_Odometry \<Rightarrow> c_Odometry" where
  "c_Odometry_ctor starting_coords starting_side raw =
     (let od = raw\<lparr>m_starting_side := starting_side\<rparr> in
      case m_starting_side od of
        RED \<Rightarrow> od\<lparr>m_starting_x := coord_x (m_live_start_red starting_coords),
                  m_starting_y := coord_y (m_live_start_red starting_coords),
                  m_starting_angle := coord_head (m_live_start_red starting_coords)\<rparr>
      | BLUE \<Rightarrow> od\<lparr>m_starting_x := coord_x (m_live_start_blue starting_coords),
                   m_starting_y := coord_y (m_live_start_blue starting_coords),
                   m_starting_angle := coord_head (m_live_start_blue starting_coords)\<rparr>
      | SKILLS \<Rightarrow> od\<lparr>m_starting_x := coord_x (m_skills starting_coords),
                     m_starting_y := coord_y (m_skills starting_coords),
                     m_starting_angle := coord_head (m_skills starting_coords)\<rparr>)"

text \<open>\<^verbatim>\<open>start_odom\<close>: a new task, running \<^verbatim>\<open>m_update_func\<close> from its first line;
  the pointer is overwritten whatever it held.\<close>

definition start_odom :: "c_Odometry \<Rightarrow> c_Odometry" where
  "start_odom od =
     od\<lparr>pros_tasks := (pros_tasks od)(pros_next od := Some m_update_func_init),
        pros_next := Suc (pros_next od),
        m_update_task := Some (pros_next od)\<rparr>"

text \<open>\<^verbatim>\<open>stop_odom\<close>: removes the task the pointer names, if any, and clears the pointer.\<close>

definition stop_odom :: "c_Odometry \<Rightarrow> c_Odometry" where
  "stop_odom od =
     (case m_update_task od of
        None \<Rightarrow> od
      | Some t \<Rightarrow> od\<lparr>pros_tasks := (pros_tasks od)(t := None), m_update_task := None\<rparr>)"

definition calibrate :: "c_Odometry \<Rightarrow> c_Odometry" where
  "calibrate od =
     (let o1 = od\<lparr>m_offset_x := 0\<rparr>;
          o2 = o1\<lparr>m_offset_y := 0\<rparr>;
          o3 = o2\<lparr>m_offset_angle := 0\<rparr>;
          o4 = o3\<lparr>m_global_x := m_starting_x o3 + m_offset_x o3\<rparr>;
          o5 = o4\<lparr>m_global_y := m_starting_y o4 + m_offset_y o4\<rparr>
      in o5\<lparr>m_global_angle := m_starting_angle o5 + m_offset_angle o5\<rparr>)"

definition get_x :: "c_Odometry \<Rightarrow> real" where
  "get_x od = m_global_x od"

definition get_y :: "c_Odometry \<Rightarrow> real" where
  "get_y od = m_global_y od"

definition get_angle :: "c_Odometry \<Rightarrow> real" where
  "get_angle od = m_global_angle od"

subsection \<open>The deadband filter and one pass of the update loop\<close>

definition m_filter_values :: "real \<Rightarrow> real \<Rightarrow> real" where
  "m_filter_values current_val last_val =
     (let filter = current_val - last_val in
      if \<bar>filter\<bar> < 0.01 then 0 else filter)"

text \<open>
  Modelled from the spec: \<^verbatim>\<open>u_deg_to_rad\<close> is a helper of the repository whose
  definition is in a header outside the sources; the spec names it the conversion of
  degrees to radians.
\<close>

definition u_deg_to_rad :: "real \<Rightarrow> real" where
  "u_deg_to_rad deg = deg * pi / 180"

text \<open>
  The body of \<^verbatim>\<open>while(true)\<close> (lines 142 to 200), in the groups the source sets
  apart by blank lines and comments, each statement by statement: \<open>l\<close> with an index is
  the task's variables and \<open>g\<close> with an index the object, after each assignment.
\<close>

text \<open>Lines 142 to 144: the rotation channel.\<close>

definition m_update_func_rotation :: "h_Sensors \<Rightarrow> update_locals \<Rightarrow> update_locals" where
  "m_update_func_rotation sens l0 =
     (let l1 = l0\<lparr>m_current_rotation := imu_get_rotation sens\<rparr>;
          l2 = l1\<lparr>m_filtered_rotation := m_filtered_rotation l1
                    + m_filter_values (m_current_rotation l1) (m_last_rotation l1)\<rparr>
      in l2\<lparr>m_last_rotation := m_current_rotation l2\<rparr>)"

text \<open>Lines 146 to 148: the pitch channel.\<close>

definition m_update_func_pitch :: "h_Sensors \<Rightarrow> update_locals \<Rightarrow> update_locals" where
  "m_update_func_pitch sens l0 =
     (let l1 = l0\<lparr>m_current_pitch := imu_get_pitch sens\<rparr>;
          l2 = l1\<lparr>m_filtered_pitch := m_filtered_pitch l1
                    + m_filter_values (m_current_pitch l1) (m_last_pitch l1)\<rparr>
      in l2\<lparr>m_last_pitch := m_current_pitch l2\<rparr>)"

text \<open>Lines 150 to 152: the roll channel.\<close>

definition m_update_func_roll :: "h_Sensors \<Rightarrow> update_locals \<Rightarrow> update_locals" where
  "m_update_func_roll sens l0 =
     (let l1 = l0\<lparr>m_current_roll := imu_get_roll sens\<rparr>;
          l2 = l1\<lparr>m_filtered_roll := m_filtered_roll l1
                    + m_filter_values (m_current_roll l1) (m_last_roll l1)\<rparr>
      in l2\<lparr>m_last_roll := m_current_roll l2\<rparr>)"

text \<open>Lines 155 to 166: the length each tracking wheel moved, the change since the last
  pass, and the new previous values.\<close>

definition m_update_func_wheels :: "h_Sensors \<Rightarrow> update_locals \<Rightarrow> update_locals" where
  "m_update_func_wheels sens l0 =
     (let l1 = l0\<lparr>m_len_right := tracking_wheels_get sens RIGHT / 360
                    * (tracking_wheels_get_diameter sens * pi)\<rparr>;
          l2 = l1\<lparr>m_len_middle := tracking_wheels_get sens MIDDLE / 360
                    * (tracking_wheels_get_diameter sens * pi)\<rparr>;
          l3 = l2\<lparr>m_delta_right := m_len_right l2 - m_last_right l2\<rparr>;
          l4 = l3\<lparr>m_delta_middle := m_len_middle l3 - m_last_middle l3\<rparr>;
          l5 = l4\<lparr>m_last_right := m_len_right l4\<rparr>
      in l5\<lparr>m_last_middle := m_len_middle l5\<rparr>)"

text \<open>
  Lines 169 to 190: the change in angle, the two chords and the polar offset. The
  condition \<^verbatim>\<open>if (m_delta_theta)\<close> converts a double to bool: true unless it is zero.
  The else branch assigns neither radius.
\<close>

definition m_update_func_arc :: "h_Sensors \<Rightarrow> c_Odometry \<Rightarrow> update_locals \<Rightarrow> update_locals" where
  "m_update_func_arc sens g0 l0 =
     (let l1 = l0\<lparr>m_delta_theta := u_deg_to_rad (m_filtered_rotation l0) - m_global_angle g0\<rparr>;
          l2 = (if m_delta_theta l1 \<noteq> 0
                then (let a1 = l1\<lparr>m_alpha := m_delta_theta l1 / 2\<rparr>;
                          a2 = a1\<lparr>m_radius_right := m_delta_right a1 / m_delta_theta a1
                                    + tracking_wheels_get_side_radius sens\<rparr>;
                          a3 = a2\<lparr>m_chord_right := (m_radius_right a2 * sin (m_alpha a2)) * 2\<rparr>;
                          a4 = a3\<lparr>m_radius_middle := m_delta_middle a3 / m_delta_theta a3
                                    + tracking_wheels_get_middle_radius sens\<rparr>
                      in a4\<lparr>m_chord_middle := (m_radius_middle a4 * sin (m_alpha a4)) * 2\<rparr>)
                else (let b1 = l1\<lparr>m_alpha := 0\<rparr>;
                          b2 = b1\<lparr>m_chord_right := m_delta_right b1\<rparr>
                      in b2\<lparr>m_chord_middle := m_delta_middle b2\<rparr>))
      in l2\<lparr>m_polar_offset := m_global_angle g0 + m_alpha l2\<rparr>)"

text \<open>Lines 193 to 200: the five writes to the global coordinates and the global angle.\<close>

definition m_update_func_pose :: "update_locals \<Rightarrow> c_Odometry \<Rightarrow> c_Odometry" where
  "m_update_func_pose l g0 =
     (let g1 = g0\<lparr>m_global_x := m_global_x g0 + m_chord_right l * sin (m_polar_offset l)\<rparr>;
          g2 = g1\<lparr>m_global_x := m_global_x g1 + m_chord_middle l * cos (m_polar_offset l)\<rparr>;
          g3 = g2\<lparr>m_global_y := m_global_y g2 + m_chord_right l * cos (m_polar_offset l)\<rparr>;
          g4 = g3\<lparr>m_global_y := m_global_y g3 + m_chord_middle l * - sin (m_polar_offset l)\<rparr>
      in g4\<lparr>m_global_angle := m_global_angle g4 + m_delta_theta l\<rparr>)"

text \<open>
  One pass: the groups in the order of the source. The printing and the delay that end
  the pass change neither the object nor the variables.
\<close>

definition m_update_func_body ::
  "h_Sensors \<Rightarrow> c_Odometry \<times> update_locals \<Rightarrow> c_Odometry \<times> update_locals" where
  "m_update_func_body sens st =
     (let l = m_update_func_arc sens (fst st)
                (m_update_func_wheels sens
                  (m_update_func_roll sens
                    (m_update_func_pitch sens
                      (m_update_func_rotation sens (snd st)))))
      in (m_update_func_pose l (fst st), l))"

text \<open>
  One pass of the loop of task \<open>t\<close>, on the object and the task table. The scheduler runs
  only live tasks: a removed task does nothing. The loop never leaves \<^verbatim>\<open>while(true)\<close>;
  a task ends by \<^verbatim>\<open>stop_odom\<close> alone. A pass and a call of a member function are
  each one step here: what another task could see or write between two statements of a
  pass is not part of the model.
\<close>

definition m_update_func_pass :: "nat \<Rightarrow> h_Sensors \<Rightarrow> c_Odometry \<Rightarrow> c_Odometry" where
  "m_update_func_pass t sens od =
     (case pros_tasks od t of
        None \<Rightarrow> od
      | Some l \<Rightarrow>
          (let r = m_update_func_body sens (od, l)
           in (fst r)\<lparr>pros_tasks := (pros_tasks (fst r))(t := Some (snd r))\<rparr>))"

text \<open>What can happen to the object, and a run of such events.\<close>

datatype event = Start_odom | Stop_odom | Calibrate | Pass nat h_Sensors

fun step :: "c_Odometry \<Rightarrow> event \<Rightarrow> c_Odometry" where
  "step od Start_odom = start_odom od"
| "step od Stop_odom = stop_odom od"
| "step od Calibrate = calibrate od"
| "step od (Pass t sens) = m_update_func_pass t sens od"

definition run :: "event list \<Rightarrow> c_Odometry \<Rightarrow> c_Odometry" where
  "run evs od = foldl step od evs"

text \<open>The pose the three getters show.\<close>

definition pose :: "c_Odometry \<Rightarrow> real \<times> real \<times> real" where
  "pose od = (get_x od, get_y od, get_angle od)"

subsection \<open>Sample configurations\<close>

text \<open>
  Concrete values on which the theorems below are run: an object as it is before the
  constructor's body runs (no task, every number zero), a starting table, and the answers
  of the sensor object for an inertial rotation reading and two tracking wheel readings,
  with wheels of diameter 2.75 in mounted 5 in and 3 in off the turning centre.
\<close>

definition demo_raw :: c_Odometry where
  "demo_raw =
     \<lparr> m_starting_side = RED, m_starting_x = 0, m_starting_y = 0, m_starting_angle = 0,
       m_offset_x = 0, m_offset_y = 0, m_offset_angle = 0,
       m_global_x = 0, m_global_y = 0, m_global_angle = 0,
       m_update_task = None, pros_tasks = (\<lambda>t. None), pros_next = 0 \<rparr>"

definition demo_start :: c_Robot_Starting_Positions where
  "demo_start =
     \<lparr> m_live_start_red = \<lparr> coord_x = 12, coord_y = 36, coord_head = 0 \<rparr>,
       m_live_start_blue = \<lparr> coord_x = 132, coord_y = 36, coord_head = 180 \<rparr>,
       m_skills = \<lparr> coord_x = 12, coord_y = 60, coord_head = 90 \<rparr> \<rparr>"

definition demo_sens :: "real \<Rightarrow> real \<Rightarrow> real \<Rightarrow> h_Sensors" where
  "demo_sens rotation right middle =
     \<lparr> imu_get_rotation = rotation, imu_get_pitch = 0, imu_get_roll = 0,
       tracking_wheels_get = (\<lambda>w. case w of RIGHT \<Rightarrow> right | MIDDLE \<Rightarrow> middle),
       tracking_wheels_get_diameter = 2.75,
       tracking_wheels_get_side_radius = 5,
       tracking_wheels_get_middle_radius = 3 \<rparr>"

text \<open>The sample object, constructed for a side and calibrated.\<close>

definition demo_calibrated :: "c_Robot_Starting_Pos_Side \<Rightarrow> c_Odometry" where
  "demo_calibrated side = calibrate (c_Odometry_ctor demo_start side demo_raw)"

section \<open>Verification\<close>

subsection \<open>The arc group, field by field\<close>

text \<open>
  What \<open>m_update_func_arc\<close> leaves in each variable, in terms of the variables before it.
  The branch is decided by the change in angle the group has just stored.
\<close>

lemma arc_delta_theta:
  "m_delta_theta (m_update_func_arc sens g l) =
     u_deg_to_rad (m_filtered_rotation l) - m_global_angle g"
  by (simp add: m_update_func_arc_def Let_def)

lemma arc_alpha:
  "m_alpha (m_update_func_arc sens g l) =
     (if m_delta_theta (m_update_func_arc sens g l) \<noteq> 0
      then m_delta_theta (m_update_func_arc sens g l) / 2 else 0)"
  by (simp add: m_update_func_arc_def Let_def)

lemma arc_radius:
  "m_radius_right (m_update_func_arc sens g l) =
     (if m_delta_theta (m_update_func_arc sens g l) \<noteq> 0
      then m_delta_right l / m_delta_theta (m_update_func_arc sens g l)
             + tracking_wheels_get_side_radius sens
      else m_radius_right l)"
  "m_radius_middle (m_update_func_arc sens g l) =
     (if m_delta_theta (m_update_func_arc sens g l) \<noteq> 0
      then m_delta_middle l / m_delta_theta (m_update_func_arc sens g l)
             + tracking_wheels_get_middle_radius sens
      else m_radius_middle l)"
  by (simp_all add: m_update_func_arc_def Let_def)

lemma arc_chord:
  "m_chord_right (m_update_func_arc sens g l) =
     (if m_delta_theta (m_update_func_arc sens g l) \<noteq> 0
      then (m_radius_right (m_update_func_arc sens g l)
              * sin (m_alpha (m_update_func_arc sens g l))) * 2
      else m_delta_right l)"
  "m_chord_middle (m_update_func_arc sens g l) =
     (if m_delta_theta (m_update_func_arc sens g l) \<noteq> 0
      then (m_radius_middle (m_update_func_arc sens g l)
              * sin (m_alpha (m_update_func_arc sens g l))) * 2
      else m_delta_middle l)"
  by (simp_all add: m_update_func_arc_def Let_def)

lemma arc_polar_offset:
  "m_polar_offset (m_update_func_arc sens g l) =
     m_global_angle g + m_alpha (m_update_func_arc sens g l)"
  by (simp add: m_update_func_arc_def Let_def)

lemma arc_frame:
  "m_current_rotation (m_update_func_arc sens g l) = m_current_rotation l"
  "m_filtered_rotation (m_update_func_arc sens g l) = m_filtered_rotation l"
  "m_last_rotation (m_update_func_arc sens g l) = m_last_rotation l"
  "m_current_pitch (m_update_func_arc sens g l) = m_current_pitch l"
  "m_filtered_pitch (m_update_func_arc sens g l) = m_filtered_pitch l"
  "m_last_pitch (m_update_func_arc sens g l) = m_last_pitch l"
  "m_current_roll (m_update_func_arc sens g l) = m_current_roll l"
  "m_filtered_roll (m_update_func_arc sens g l) = m_filtered_roll l"
  "m_last_roll (m_update_func_arc sens g l) = m_last_roll l"
  "m_len_right (m_update_func_arc sens g l) = m_len_right l"
  "m_len_middle (m_update_func_arc sens g l) = m_len_middle l"
  "m_delta_right (m_update_func_arc sens g l) = m_delta_right l"
  "m_delta_middle (m_update_func_arc sens g l) = m_delta_middle l"
  "m_last_right (m_update_func_arc sens g l) = m_last_right l"
  "m_last_middle (m_update_func_arc sens g l) = m_last_middle l"
  by (simp_all add: m_update_func_arc_def Let_def)

lemmas arc_fields =
  arc_alpha arc_radius arc_chord arc_polar_offset arc_frame arc_delta_theta

text \<open>Unfolding one pass: the groups other than the arc group by their definitions.\<close>

lemmas m_update_func_defs =
  m_update_func_body_def m_update_func_pose_def arc_fields
  m_update_func_wheels_def m_update_func_roll_def m_update_func_pitch_def
  m_update_func_rotation_def Let_def

text \<open>Unfolding the sample configurations.\<close>

lemmas demo_defs =
  demo_raw_def demo_start_def demo_sens_def demo_calibrated_def c_Odometry_ctor_def
  calibrate_def m_update_func_init_def m_filter_values_def u_deg_to_rad_def

subsection \<open>The arc branch\<close>

text \<open>
  Claim C1. In a pass whose change in angle is not zero, where the change in angle is the
  filtered rotation total converted to radians minus the heading the pose held: alpha is
  half the change in angle; each wheel's radius is its travel delta divided by the change
  in angle plus that wheel's offset from the turning centre, and its chord is twice the
  radius times the sine of alpha; the polar offset is the old heading plus alpha; the pass
  adds chordRight * sin + chordMiddle * cos of the polar offset to x and
  chordRight * cos + chordMiddle * (- sin) to y, and adds the change in angle to the
  heading.
\<close>

theorem arc_branch_integration:
  assumes "m_update_func_body sens (g, l) = (g', l')" and "m_delta_theta l' \<noteq> 0"
  shows "m_delta_theta l' = u_deg_to_rad (m_filtered_rotation l') - m_global_angle g
    \<and> m_alpha l' = m_delta_theta l' / 2
    \<and> m_radius_right l' =
        m_delta_right l' / m_delta_theta l' + tracking_wheels_get_side_radius sens
    \<and> m_chord_right l' = 2 * m_radius_right l' * sin (m_alpha l')
    \<and> m_radius_middle l' =
        m_delta_middle l' / m_delta_theta l' + tracking_wheels_get_middle_radius sens
    \<and> m_chord_middle l' = 2 * m_radius_middle l' * sin (m_alpha l')
    \<and> m_polar_offset l' = m_global_angle g + m_alpha l'
    \<and> m_global_x g' = m_global_x g
        + (m_chord_right l' * sin (m_polar_offset l')
           + m_chord_middle l' * cos (m_polar_offset l'))
    \<and> m_global_y g' = m_global_y g
        + (m_chord_right l' * cos (m_polar_offset l')
           + m_chord_middle l' * (- sin (m_polar_offset l')))
    \<and> m_global_angle g' = m_global_angle g + m_delta_theta l'"
proof -
  from assms(1) have g': "g' = fst (m_update_func_body sens (g, l))"
    and l': "l' = snd (m_update_func_body sens (g, l))" by simp_all
  from assms(2) show ?thesis unfolding g' l'
    by (simp add: m_update_func_defs)
qed

text \<open>
  The first pass of the sample object on the red side, the inertial unit reading a quarter
  turn and the right wheel one revolution: the change in angle is \<open>pi / 2\<close>.
\<close>

theorem arc_branch_integration_witness:
  "m_delta_theta (snd (m_update_func_body (demo_sens 90 360 0)
      (demo_calibrated RED, m_update_func_init))) = pi / 2
   \<and> pi / 2 \<noteq> (0::real)
   \<and> m_alpha (snd (m_update_func_body (demo_sens 90 360 0)
      (demo_calibrated RED, m_update_func_init))) = pi / 4
   \<and> m_polar_offset (snd (m_update_func_body (demo_sens 90 360 0)
      (demo_calibrated RED, m_update_func_init))) = pi / 4
   \<and> m_global_angle (fst (m_update_func_body (demo_sens 90 360 0)
      (demo_calibrated RED, m_update_func_init))) = pi / 2"
proof -
  let ?r = "m_update_func_body (demo_sens 90 360 0) (demo_calibrated RED, m_update_func_init)"
  have eq: "?r = (fst ?r, snd ?r)" by simp
  have dt: "m_delta_theta (snd ?r) = pi / 2"
    by (simp add: m_update_func_defs demo_defs)
  have nz: "m_delta_theta (snd ?r) \<noteq> 0" unfolding dt by simp
  have g0: "m_global_angle (demo_calibrated RED) = 0" by (simp add: demo_defs Let_def)
  from arc_branch_integration [OF eq nz] dt g0 show ?thesis by simp
qed

subsection \<open>The straight branch\<close>

text \<open>
  Claim C4. In a pass whose change in angle is exactly zero, each wheel's chord is that
  wheel's raw travel delta (the length it moved minus the previous length), with no sine
  applied: chordRight = dRight and chordMiddle = dMiddle.
\<close>

theorem straight_branch_chords:
  assumes "m_update_func_body sens (g, l) = (g', l')" and "m_delta_theta l' = 0"
  shows "m_chord_right l' = m_delta_right l'
    \<and> m_chord_middle l' = m_delta_middle l'
    \<and> m_alpha l' = 0
    \<and> m_delta_right l' =
        tracking_wheels_get sens RIGHT / 360 * (tracking_wheels_get_diameter sens * pi)
          - m_last_right l
    \<and> m_delta_middle l' =
        tracking_wheels_get sens MIDDLE / 360 * (tracking_wheels_get_diameter sens * pi)
          - m_last_middle l"
proof -
  from assms(1) have l': "l' = snd (m_update_func_body sens (g, l))" by simp
  from assms(2) show ?thesis unfolding l'
    by (simp add: m_update_func_defs)
qed

text \<open>
  The first pass of the sample object on the red side with no rotation, the right wheel
  one revolution and the middle wheel half of one.
\<close>

theorem straight_branch_chords_witness:
  "m_delta_theta (snd (m_update_func_body (demo_sens 0 360 180)
      (demo_calibrated RED, m_update_func_init))) = 0
   \<and> m_chord_right (snd (m_update_func_body (demo_sens 0 360 180)
      (demo_calibrated RED, m_update_func_init))) = 2.75 * pi
   \<and> m_chord_middle (snd (m_update_func_body (demo_sens 0 360 180)
      (demo_calibrated RED, m_update_func_init))) = 2.75 * pi / 2"
proof -
  let ?r = "m_update_func_body (demo_sens 0 360 180) (demo_calibrated RED, m_update_func_init)"
  have eq: "?r = (fst ?r, snd ?r)" by simp
  have dt: "m_delta_theta (snd ?r) = 0"
    by (simp add: m_update_func_defs demo_defs)
  from straight_branch_chords [OF eq dt] dt show ?thesis by (simp add: demo_defs)
qed

subsection \<open>The deadband filter\<close>

text \<open>
  Claim C3. For readings current and last of an angular channel the filter computes
  delta = current - last and yields zero when the magnitude of delta is below 0.01, delta
  itself otherwise. In every pass, for each of rotation, pitch and roll, what the filter
  yields is added to the channel's filtered total, and the stored last reading becomes the
  current reading whether or not the delta passed the threshold.
\<close>

theorem deadband_filter_channels:
  "m_filter_values current_val last_val =
     (if \<bar>current_val - last_val\<bar> < 0.01 then 0 else current_val - last_val)
   \<and> m_filtered_rotation (snd (m_update_func_body sens (g, l))) =
       m_filtered_rotation l + m_filter_values (imu_get_rotation sens) (m_last_rotation l)
   \<and> m_last_rotation (snd (m_update_func_body sens (g, l))) = imu_get_rotation sens
   \<and> m_filtered_pitch (snd (m_update_func_body sens (g, l))) =
       m_filtered_pitch l + m_filter_values (imu_get_pitch sens) (m_last_pitch l)
   \<and> m_last_pitch (snd (m_update_func_body sens (g, l))) = imu_get_pitch sens
   \<and> m_filtered_roll (snd (m_update_func_body sens (g, l))) =
       m_filtered_roll l + m_filter_values (imu_get_roll sens) (m_last_roll l)
   \<and> m_last_roll (snd (m_update_func_body sens (g, l))) = imu_get_roll sens"
proof -
  have "m_filter_values current_val last_val =
     (if \<bar>current_val - last_val\<bar> < 0.01 then 0 else current_val - last_val)"
    by (simp add: m_filter_values_def Let_def)
  then show ?thesis by (simp add: m_update_func_defs)
qed

subsection \<open>The heading follows the filtered rotation\<close>


subsection \<open>Calibration\<close>

text \<open>No event writes the starting members or the side.\<close>

lemma body_starting:
  "m_starting_side (fst (m_update_func_body sens (g, l))) = m_starting_side g"
  "m_starting_x (fst (m_update_func_body sens (g, l))) = m_starting_x g"
  "m_starting_y (fst (m_update_func_body sens (g, l))) = m_starting_y g"
  "m_starting_angle (fst (m_update_func_body sens (g, l))) = m_starting_angle g"
  by (simp_all add: m_update_func_body_def m_update_func_pose_def Let_def)

lemma step_starting:
  "m_starting_side (step od ev) = m_starting_side od"
  "m_starting_x (step od ev) = m_starting_x od"
  "m_starting_y (step od ev) = m_starting_y od"
  "m_starting_angle (step od ev) = m_starting_angle od"
  by (cases ev; simp add: start_odom_def stop_odom_def calibrate_def m_update_func_pass_def
        body_starting Let_def split: option.splits)+

lemma run_starting:
  "m_starting_side (run evs od) = m_starting_side od
   \<and> m_starting_x (run evs od) = m_starting_x od
   \<and> m_starting_y (run evs od) = m_starting_y od
   \<and> m_starting_angle (run evs od) = m_starting_angle od"
  unfolding run_def
  by (induction evs arbitrary: od) (simp_all add: step_starting)

text \<open>
  Claim C2. Take the object as the constructor leaves it for a side, and let any events
  happen to it: tasks started and stopped, passes of any task on any sensor answers,
  earlier calibrations. Then \<open>calibrate\<close> sets the three offsets to zero and the pose to
  the starting triple of that side, whatever the pose had become.
\<close>

theorem calibrate_restores_starting_pose:
  "m_offset_x (calibrate (run evs (c_Odometry_ctor starting_coords side raw))) = 0
   \<and> m_offset_y (calibrate (run evs (c_Odometry_ctor starting_coords side raw))) = 0
   \<and> m_offset_angle (calibrate (run evs (c_Odometry_ctor starting_coords side raw))) = 0
   \<and> m_starting_side (calibrate (run evs (c_Odometry_ctor starting_coords side raw))) = side
   \<and> pose (calibrate (run evs (c_Odometry_ctor starting_coords side raw))) =
       (case side of
          RED \<Rightarrow> (coord_x (m_live_start_red starting_coords),
                  coord_y (m_live_start_red starting_coords),
                  coord_head (m_live_start_red starting_coords))
        | BLUE \<Rightarrow> (coord_x (m_live_start_blue starting_coords),
                   coord_y (m_live_start_blue starting_coords),
                   coord_head (m_live_start_blue starting_coords))
        | SKILLS \<Rightarrow> (coord_x (m_skills starting_coords),
                     coord_y (m_skills starting_coords),
                     coord_head (m_skills starting_coords)))"
proof -
  let ?c = "c_Odometry_ctor starting_coords side raw"
  have start: "m_starting_side ?c = side"
    "m_starting_x ?c = (case side of RED \<Rightarrow> coord_x (m_live_start_red starting_coords)
        | BLUE \<Rightarrow> coord_x (m_live_start_blue starting_coords)
        | SKILLS \<Rightarrow> coord_x (m_skills starting_coords))"
    "m_starting_y ?c = (case side of RED \<Rightarrow> coord_y (m_live_start_red starting_coords)
        | BLUE \<Rightarrow> coord_y (m_live_start_blue starting_coords)
        | SKILLS \<Rightarrow> coord_y (m_skills starting_coords))"
    "m_starting_angle ?c = (case side of RED \<Rightarrow> coord_head (m_live_start_red starting_coords)
        | BLUE \<Rightarrow> coord_head (m_live_start_blue starting_coords)
        | SKILLS \<Rightarrow> coord_head (m_skills starting_coords))"
    by (cases side; simp add: c_Odometry_ctor_def)+
  have cal: "\<And>od. m_offset_x (calibrate od) = 0 \<and> m_offset_y (calibrate od) = 0
      \<and> m_offset_angle (calibrate od) = 0
      \<and> m_starting_side (calibrate od) = m_starting_side od
      \<and> pose (calibrate od) = (m_starting_x od, m_starting_y od, m_starting_angle od)"
    by (simp add: calibrate_def pose_def get_x_def get_y_def get_angle_def Let_def)
  show ?thesis
    using cal [of "run evs ?c"] run_starting [of evs ?c] start
    by (cases side) simp_all
qed

subsection \<open>Stopping and starting\<close>

text \<open>One pass reads of the object only the pose.\<close>

lemma body_pose_cong:
  assumes "m_global_x g1 = m_global_x g2" "m_global_y g1 = m_global_y g2"
    "m_global_angle g1 = m_global_angle g2"
  shows "pose (fst (m_update_func_body sens (g1, l))) =
    pose (fst (m_update_func_body sens (g2, l)))"
  using assms
  by (simp add: pose_def get_x_def get_y_def get_angle_def m_update_func_defs)

text \<open>
  Claim C8. In every state, \<open>stop_odom\<close> and \<open>start_odom\<close> leave the pose as it was,
  and so does one after the other: nothing resets it. The task that \<open>start_odom\<close> creates
  is live, and its first pass computes from that pose: it gives the pose that one pass on
  the object before the stop gives, run on the initial values of the task's variables.
  With \<open>calibrate\<close> between the stop and the start, the pose is the starting triple
  instead.
\<close>

theorem stop_start_keeps_pose:
  "pose (stop_odom od) = pose od
   \<and> pose (start_odom od) = pose od
   \<and> pose (start_odom (stop_odom od)) = pose od
   \<and> m_update_task (start_odom (stop_odom od)) = Some (pros_next od)
   \<and> pros_tasks (start_odom (stop_odom od)) (pros_next od) = Some m_update_func_init
   \<and> pose (m_update_func_pass (pros_next od) sens (start_odom (stop_odom od))) =
       pose (fst (m_update_func_body sens (od, m_update_func_init)))
   \<and> pose (start_odom (calibrate (stop_odom od))) =
       (m_starting_x od, m_starting_y od, m_starting_angle od)"
proof -
  have stop: "pose (stop_odom od) = pose od" "pros_next (stop_odom od) = pros_next od"
    by (simp_all add: stop_odom_def pose_def get_x_def get_y_def get_angle_def
          split: option.splits)
  have start: "\<And>g. pose (start_odom g) = pose g"
    "\<And>g. m_update_task (start_odom g) = Some (pros_next g)"
    "\<And>g. pros_tasks (start_odom g) (pros_next g) = Some m_update_func_init"
    by (simp_all add: start_odom_def pose_def get_x_def get_y_def get_angle_def)
  have pass: "pose (m_update_func_pass (pros_next od) sens (start_odom (stop_odom od))) =
      pose (fst (m_update_func_body sens (start_odom (stop_odom od), m_update_func_init)))"
    using start(3) [of "stop_odom od"] stop(2)
    by (simp add: m_update_func_pass_def Let_def pose_def get_x_def get_y_def get_angle_def)
  have same: "m_global_x (start_odom (stop_odom od)) = m_global_x od"
    "m_global_y (start_odom (stop_odom od)) = m_global_y od"
    "m_global_angle (start_odom (stop_odom od)) = m_global_angle od"
    by (simp_all add: start_odom_def stop_odom_def split: option.splits)
  have cal: "pose (calibrate (stop_odom od)) =
      (m_starting_x od, m_starting_y od, m_starting_angle od)"
    by (simp add: calibrate_def stop_odom_def pose_def get_x_def get_y_def get_angle_def
          Let_def split: option.splits)
  have task: "m_update_task (start_odom (stop_odom od)) = Some (pros_next od)"
    "pros_tasks (start_odom (stop_odom od)) (pros_next od) = Some m_update_func_init"
    using start(2,3) [of "stop_odom od"] stop(2) by simp_all
  show ?thesis
    using stop(1) start(1) task pass body_pose_cong [OF same] cal by simp
qed

subsection \<open>Which wheel senses which axis\<close>

text \<open>
  Claim C5. In a pass that starts at heading 0 and has a zero change in angle: if the
  right wheel's travel delta is 1 inch and the middle wheel's is zero, y grows by exactly
  1 and x stays; if the middle wheel's delta is 1 inch and the right wheel's is zero, x
  grows by exactly 1 and y stays.
\<close>

theorem coordinate_convention:
  assumes "m_update_func_body sens (g, l) = (g', l')"
    and "m_global_angle g = 0" and "m_delta_theta l' = 0"
  shows "(m_delta_right l' = 1 \<and> m_delta_middle l' = 0 \<longrightarrow>
            m_global_y g' = m_global_y g + 1 \<and> m_global_x g' = m_global_x g)
    \<and> (m_delta_right l' = 0 \<and> m_delta_middle l' = 1 \<longrightarrow>
            m_global_x g' = m_global_x g + 1 \<and> m_global_y g' = m_global_y g)"
proof -
  from assms(1) have g': "g' = fst (m_update_func_body sens (g, l))"
    and l': "l' = snd (m_update_func_body sens (g, l))" by simp_all
  from assms(2,3) show ?thesis unfolding g' l'
    by (simp add: m_update_func_defs)
qed

text \<open>
  The sample object on the red side starts at (12, 36) with heading 0. A wheel of diameter
  2.75 in travels one inch when it turns by \<open>360 / (2.75 * pi)\<close> degrees: the right wheel
  alone, then the middle wheel alone.
\<close>

theorem coordinate_convention_witness:
  "pose (demo_calibrated RED) = (12, 36, 0)
   \<and> pose (fst (m_update_func_body (demo_sens 0 (360 / (2.75 * pi)) 0)
        (demo_calibrated RED, m_update_func_init))) = (12, 37, 0)
   \<and> pose (fst (m_update_func_body (demo_sens 0 0 (360 / (2.75 * pi)))
        (demo_calibrated RED, m_update_func_init))) = (13, 36, 0)"
proof -
  let ?a = "m_update_func_body (demo_sens 0 (360 / (2.75 * pi)) 0)
        (demo_calibrated RED, m_update_func_init)"
  let ?b = "m_update_func_body (demo_sens 0 0 (360 / (2.75 * pi)))
        (demo_calibrated RED, m_update_func_init)"
  have g0: "pose (demo_calibrated RED) = (12, 36, 0)" "m_global_angle (demo_calibrated RED) = 0"
    "m_global_x (demo_calibrated RED) = 12" "m_global_y (demo_calibrated RED) = 36"
    by (simp_all add: demo_defs pose_def get_x_def get_y_def get_angle_def Let_def)
  have a: "?a = (fst ?a, snd ?a)" "m_delta_theta (snd ?a) = 0"
    "m_delta_right (snd ?a) = 1" "m_delta_middle (snd ?a) = 0"
    "m_global_angle (fst ?a) = 0"
    by (simp_all add: m_update_func_defs demo_defs)
  have b: "?b = (fst ?b, snd ?b)" "m_delta_theta (snd ?b) = 0"
    "m_delta_right (snd ?b) = 0" "m_delta_middle (snd ?b) = 1"
    "m_global_angle (fst ?b) = 0"
    by (simp_all add: m_update_func_defs demo_defs)
  from coordinate_convention [OF a(1) g0(2) a(2)] coordinate_convention [OF b(1) g0(2) b(2)]
    a b g0
  show ?thesis by (simp add: pose_def get_x_def get_y_def get_angle_def)
qed

subsection \<open>A pass with no change at the sensors\<close>

text \<open>Unfolding a run of events.\<close>

lemmas run_defs = run_def start_odom_def stop_odom_def m_update_func_pass_def

text \<open>
  Claim C6 says that a pass in which every sensor delta is zero leaves the pose unchanged.
  It fails when the heading of the pose is not the converted filtered total as the pass
  begins. The sample object on the red side: a task is started and makes one pass with the
  inertial unit at 90 degrees, \<open>calibrate\<close> puts the heading back to the starting
  heading 0, and the task makes a second pass on the same sensor answers. Every reading
  equals the stored previous one (rotation, pitch, roll, and the two wheel lengths), and
  the second pass moves the heading from 0 to \<open>pi / 2\<close>.
\<close>

theorem zero_input_pass_after_calibrate_turns_heading:
  "map_option m_last_rotation
      (pros_tasks (run [Start_odom, Pass 0 (demo_sens 90 360 180), Calibrate]
         (demo_calibrated RED)) 0)
     = Some (imu_get_rotation (demo_sens 90 360 180))
   \<and> map_option m_last_pitch
      (pros_tasks (run [Start_odom, Pass 0 (demo_sens 90 360 180), Calibrate]
         (demo_calibrated RED)) 0)
     = Some (imu_get_pitch (demo_sens 90 360 180))
   \<and> map_option m_last_roll
      (pros_tasks (run [Start_odom, Pass 0 (demo_sens 90 360 180), Calibrate]
         (demo_calibrated RED)) 0)
     = Some (imu_get_roll (demo_sens 90 360 180))
   \<and> map_option m_last_right
      (pros_tasks (run [Start_odom, Pass 0 (demo_sens 90 360 180), Calibrate]
         (demo_calibrated RED)) 0)
     = Some (tracking_wheels_get (demo_sens 90 360 180) RIGHT / 360
         * (tracking_wheels_get_diameter (demo_sens 90 360 180) * pi))
   \<and> map_option m_last_middle
      (pros_tasks (run [Start_odom, Pass 0 (demo_sens 90 360 180), Calibrate]
         (demo_calibrated RED)) 0)
     = Some (tracking_wheels_get (demo_sens 90 360 180) MIDDLE / 360
         * (tracking_wheels_get_diameter (demo_sens 90 360 180) * pi))
   \<and> get_angle (run [Start_odom, Pass 0 (demo_sens 90 360 180), Calibrate]
         (demo_calibrated RED)) = 0
   \<and> get_angle (run [Start_odom, Pass 0 (demo_sens 90 360 180), Calibrate,
         Pass 0 (demo_sens 90 360 180)] (demo_calibrated RED)) = pi / 2
   \<and> pi / 2 \<noteq> (0::real)"
  by (simp add: run_defs get_angle_def m_update_func_defs demo_defs)

text \<open>
  Claim C6, amended. A pass in which every sensor delta is zero (the rotation, pitch and
  roll readings equal the stored previous readings and both wheel lengths equal the stored
  previous lengths) and which begins with the heading of the pose equal to the filtered
  rotation total converted to radians leaves the pose (x, y, heading) unchanged.
\<close>

theorem zero_input_pass_keeps_pose:
  assumes "imu_get_rotation sens = m_last_rotation l"
    and "imu_get_pitch sens = m_last_pitch l"
    and "imu_get_roll sens = m_last_roll l"
    and "tracking_wheels_get sens RIGHT / 360 * (tracking_wheels_get_diameter sens * pi)
          = m_last_right l"
    and "tracking_wheels_get sens MIDDLE / 360 * (tracking_wheels_get_diameter sens * pi)
          = m_last_middle l"
    and "m_global_angle g = u_deg_to_rad (m_filtered_rotation l)"
  shows "pose (fst (m_update_func_body sens (g, l))) = pose g"
  using assms
  by (simp add: pose_def get_x_def get_y_def get_angle_def m_update_func_defs
        m_filter_values_def)

text \<open>
  Two passes of the sample object on the same sensor answers, with no calibration
  between them: the second changes nothing.
\<close>

theorem zero_input_pass_keeps_pose_witness:
  "pose (fst (m_update_func_body (demo_sens 90 360 180)
      (m_update_func_body (demo_sens 90 360 180) (demo_calibrated RED, m_update_func_init))))
   = pose (fst (m_update_func_body (demo_sens 90 360 180)
      (demo_calibrated RED, m_update_func_init)))
   \<and> get_angle (fst (m_update_func_body (demo_sens 90 360 180)
      (demo_calibrated RED, m_update_func_init))) = pi / 2"
proof -
  let ?s = "demo_sens 90 360 180"
  let ?r = "m_update_func_body ?s (demo_calibrated RED, m_update_func_init)"
  have h: "imu_get_rotation ?s = m_last_rotation (snd ?r)"
    "imu_get_pitch ?s = m_last_pitch (snd ?r)"
    "imu_get_roll ?s = m_last_roll (snd ?r)"
    "tracking_wheels_get ?s RIGHT / 360 * (tracking_wheels_get_diameter ?s * pi)
       = m_last_right (snd ?r)"
    "tracking_wheels_get ?s MIDDLE / 360 * (tracking_wheels_get_diameter ?s * pi)
       = m_last_middle (snd ?r)"
    "m_global_angle (fst ?r) = u_deg_to_rad (m_filtered_rotation (snd ?r))"
    by (simp_all add: m_update_func_defs demo_sens_def)
  have a: "get_angle (fst ?r) = pi / 2"
    by (simp add: get_angle_def m_update_func_defs demo_defs)
  from zero_input_pass_keeps_pose [OF h] a show ?thesis by simp
qed

subsection \<open>The test that chooses the branch\<close>

text \<open>
  Claim C7 says that a change in angle that is not zero but lies inside a band matching
  the filter's threshold of 0.01 degrees takes the straight branch. The code tests
  \<^verbatim>\<open>if (m_delta_theta)\<close>. The sample object on the red side: a task makes one pass
  with the inertial unit at 0.02 degrees and is stopped; a new task is started and makes
  its first pass with the unit at 0.025 degrees and the wheels at rest. Its change in
  angle is 0.005 degrees in radians: not zero and inside the band. The arc branch ran:
  alpha is half the change in angle, the right radius was computed by the division, and
  the right chord is not the wheel's travel delta, which is zero.
\<close>

theorem small_rotation_takes_arc_branch:
  "map_option m_delta_theta
      (pros_tasks (run [Start_odom, Pass 0 (demo_sens 0.02 0 0), Stop_odom, Start_odom,
                        Pass 1 (demo_sens 0.025 0 0)] (demo_calibrated RED)) 1)
     = Some (u_deg_to_rad 0.005)
   \<and> u_deg_to_rad 0.005 \<noteq> 0
   \<and> \<bar>u_deg_to_rad 0.005\<bar> < u_deg_to_rad 0.01
   \<and> map_option m_alpha
      (pros_tasks (run [Start_odom, Pass 0 (demo_sens 0.02 0 0), Stop_odom, Start_odom,
                        Pass 1 (demo_sens 0.025 0 0)] (demo_calibrated RED)) 1)
     = Some (u_deg_to_rad 0.005 / 2)
   \<and> map_option m_radius_right
      (pros_tasks (run [Start_odom, Pass 0 (demo_sens 0.02 0 0), Stop_odom, Start_odom,
                        Pass 1 (demo_sens 0.025 0 0)] (demo_calibrated RED)) 1)
     = Some (0 / u_deg_to_rad 0.005 + 5)
   \<and> map_option m_chord_right
      (pros_tasks (run [Start_odom, Pass 0 (demo_sens 0.02 0 0), Stop_odom, Start_odom,
                        Pass 1 (demo_sens 0.025 0 0)] (demo_calibrated RED)) 1)
     = Some (5 * sin (u_deg_to_rad 0.005 / 2) * 2)
   \<and> map_option m_delta_right
      (pros_tasks (run [Start_odom, Pass 0 (demo_sens 0.02 0 0), Stop_odom, Start_odom,
                        Pass 1 (demo_sens 0.025 0 0)] (demo_calibrated RED)) 1)
     = Some 0
   \<and> 5 * sin (u_deg_to_rad 0.005 / 2) * 2 \<noteq> 0"
proof -
  have sin_pos: "5 * sin (u_deg_to_rad 0.005 / 2) * 2 \<noteq> 0"
  proof -
    have "0 < u_deg_to_rad 0.005 / 2" by (simp add: u_deg_to_rad_def)
    moreover have "u_deg_to_rad 0.005 / 2 < pi"
      using pi_gt_zero by (simp add: u_deg_to_rad_def)
    ultimately have "0 < sin (u_deg_to_rad 0.005 / 2)" by (rule sin_gt_zero)
    then show ?thesis by simp
  qed
  have band: "u_deg_to_rad 0.005 \<noteq> 0" "\<bar>u_deg_to_rad 0.005\<bar> < u_deg_to_rad 0.01"
    by (simp_all add: u_deg_to_rad_def)
  show ?thesis
    using sin_pos band
    by (simp add: run_defs m_update_func_defs demo_defs)
qed

text \<open>
  Claim C7, amended. The decision is the exact comparison of the change in angle with
  zero. A pass takes the straight branch (alpha zero, each chord the wheel's travel delta)
  when the change in angle is exactly zero, and for every other change in angle, however
  small, it takes the arc branch: alpha is half the change in angle and each radius is the
  wheel's travel delta divided by the change in angle, plus the wheel's offset.
\<close>

theorem branch_test_is_exact:
  assumes "m_update_func_body sens (g, l) = (g', l')"
  shows "(m_delta_theta l' = 0 \<longrightarrow>
            m_alpha l' = 0 \<and> m_chord_right l' = m_delta_right l'
            \<and> m_chord_middle l' = m_delta_middle l')
    \<and> (m_delta_theta l' \<noteq> 0 \<longrightarrow>
            m_alpha l' = m_delta_theta l' / 2
            \<and> m_radius_right l' =
                m_delta_right l' / m_delta_theta l' + tracking_wheels_get_side_radius sens
            \<and> m_radius_middle l' =
                m_delta_middle l' / m_delta_theta l' + tracking_wheels_get_middle_radius sens
            \<and> m_chord_right l' = (m_radius_right l' * sin (m_alpha l')) * 2
            \<and> m_chord_middle l' = (m_radius_middle l' * sin (m_alpha l')) * 2)"
proof -
  from assms(1) have l': "l' = snd (m_update_func_body sens (g, l))" by simp
  show ?thesis unfolding l'
    by (simp add: m_update_func_defs)
qed

text \<open>
  Both branches on the sample object: a first pass with no rotation and the right wheel
  one revolution, and a pass with the inertial unit at 0.025 degrees from a pose whose
  heading a pass at 0.02 degrees has left.
\<close>

theorem branch_test_is_exact_witness:
  "m_delta_theta (snd (m_update_func_body (demo_sens 0 360 0)
      (demo_calibrated RED, m_update_func_init))) = 0
   \<and> m_alpha (snd (m_update_func_body (demo_sens 0 360 0)
      (demo_calibrated RED, m_update_func_init))) = 0
   \<and> m_chord_right (snd (m_update_func_body (demo_sens 0 360 0)
      (demo_calibrated RED, m_update_func_init))) = 2.75 * pi
   \<and> m_delta_theta (snd (m_update_func_body (demo_sens 0.025 0 0)
      (fst (m_update_func_body (demo_sens 0.02 0 0) (demo_calibrated RED, m_update_func_init)),
       m_update_func_init))) = u_deg_to_rad 0.005
   \<and> u_deg_to_rad 0.005 \<noteq> 0
   \<and> m_alpha (snd (m_update_func_body (demo_sens 0.025 0 0)
      (fst (m_update_func_body (demo_sens 0.02 0 0) (demo_calibrated RED, m_update_func_init)),
       m_update_func_init))) = u_deg_to_rad 0.005 / 2
   \<and> m_radius_right (snd (m_update_func_body (demo_sens 0.025 0 0)
      (fst (m_update_func_body (demo_sens 0.02 0 0) (demo_calibrated RED, m_update_func_init)),
       m_update_func_init))) = 5"
proof -
  let ?a = "m_update_func_body (demo_sens 0 360 0) (demo_calibrated RED, m_update_func_init)"
  let ?b = "m_update_func_body (demo_sens 0.025 0 0)
      (fst (m_update_func_body (demo_sens 0.02 0 0) (demo_calibrated RED, m_update_func_init)),
       m_update_func_init)"
  have a: "?a = (fst ?a, snd ?a)" "m_delta_theta (snd ?a) = 0"
    "m_delta_right (snd ?a) = 2.75 * pi"
    by (simp_all add: m_update_func_defs demo_defs)
  have b: "?b = (fst ?b, snd ?b)" "m_delta_theta (snd ?b) = u_deg_to_rad 0.005"
    "m_delta_right (snd ?b) = 0"
    by (simp_all add: m_update_func_defs demo_defs)
  have nz: "u_deg_to_rad 0.005 \<noteq> 0" by (simp add: u_deg_to_rad_def)
  have side: "tracking_wheels_get_side_radius (demo_sens 0.025 0 0) = 5"
    by (simp add: demo_sens_def)
  from branch_test_is_exact [OF a(1)] branch_test_is_exact [OF b(1)] a b nz side
  show ?thesis by simp
qed

end
